theory Spec2Isabelle
  imports Complex_Main "HOL-Library.Word" "HOL-Library.Char_ord"
begin

section \<open>The values of a C++ double\<close>

text \<open>
  The targeting engine computes with \<^verbatim>\<open>double\<close> throughout. A double is either a
  number or one of the three special values of IEEE 754 arithmetic: the two infinities
  and NaN. The model keeps the special values and the rules by which the arithmetic
  produces and propagates them (division by zero, the square root or logarithm of a
  negative number, \<open>\<infinity> - \<infinity>\<close>, \<open>0 * \<infinity>\<close>, comparisons with NaN). A finite value is
  a real number: rounding, overflow to infinity and the sign of zero are not modelled
  (a division of a non-zero number by zero yields the infinity with the sign of the
  dividend).
\<close>

datatype double = Fin real | PInf | NInf | NaN

fun isfinite :: "double \<Rightarrow> bool" where
  "isfinite (Fin x) = True"
| "isfinite PInf = False"
| "isfinite NInf = False"
| "isfinite NaN = False"

instantiation double :: "{zero, one, plus, uminus, minus, times, inverse, ord}"
begin

definition zero_double :: double where
  "zero_double = Fin 0"

definition one_double :: double where
  "one_double = Fin 1"

fun plus_double :: "double \<Rightarrow> double \<Rightarrow> double" where
  "plus_double (Fin a) (Fin b) = Fin (a + b)"
| "plus_double NaN y = NaN"
| "plus_double x NaN = NaN"
| "plus_double PInf NInf = NaN"
| "plus_double NInf PInf = NaN"
| "plus_double PInf y = PInf"
| "plus_double NInf y = NInf"
| "plus_double (Fin a) PInf = PInf"
| "plus_double (Fin a) NInf = NInf"

fun uminus_double :: "double \<Rightarrow> double" where
  "uminus_double (Fin a) = Fin (- a)"
| "uminus_double PInf = NInf"
| "uminus_double NInf = PInf"
| "uminus_double NaN = NaN"

definition minus_double :: "double \<Rightarrow> double \<Rightarrow> double" where
  "minus_double x y = x + (- y)"

fun times_double :: "double \<Rightarrow> double \<Rightarrow> double" where
  "times_double (Fin a) (Fin b) = Fin (a * b)"
| "times_double NaN y = NaN"
| "times_double x NaN = NaN"
| "times_double PInf PInf = PInf"
| "times_double PInf NInf = NInf"
| "times_double NInf PInf = NInf"
| "times_double NInf NInf = PInf"
| "times_double PInf (Fin b) = (if b = 0 then NaN else if 0 < b then PInf else NInf)"
| "times_double NInf (Fin b) = (if b = 0 then NaN else if 0 < b then NInf else PInf)"
| "times_double (Fin a) PInf = (if a = 0 then NaN else if 0 < a then PInf else NInf)"
| "times_double (Fin a) NInf = (if a = 0 then NaN else if 0 < a then NInf else PInf)"

fun divide_double :: "double \<Rightarrow> double \<Rightarrow> double" where
  "divide_double (Fin a) (Fin b) =
     (if b \<noteq> 0 then Fin (a / b)
      else if a = 0 then NaN else if 0 < a then PInf else NInf)"
| "divide_double NaN y = NaN"
| "divide_double x NaN = NaN"
| "divide_double (Fin a) PInf = Fin 0"
| "divide_double (Fin a) NInf = Fin 0"
| "divide_double PInf (Fin b) = (if 0 \<le> b then PInf else NInf)"
| "divide_double NInf (Fin b) = (if 0 \<le> b then NInf else PInf)"
| "divide_double PInf y = NaN"
| "divide_double NInf y = NaN"

fun inverse_double :: "double \<Rightarrow> double" where
  "inverse_double (Fin a) = (if a \<noteq> 0 then Fin (1 / a) else PInf)"
| "inverse_double PInf = Fin 0"
| "inverse_double NInf = Fin 0"
| "inverse_double NaN = NaN"

fun less_double :: "double \<Rightarrow> double \<Rightarrow> bool" where
  "less_double (Fin a) (Fin b) = (a < b)"
| "less_double NaN y = False"
| "less_double x NaN = False"
| "less_double NInf NInf = False"
| "less_double NInf y = True"
| "less_double x PInf = (x \<noteq> PInf)"
| "less_double PInf y = False"
| "less_double (Fin a) NInf = False"

fun less_eq_double :: "double \<Rightarrow> double \<Rightarrow> bool" where
  "less_eq_double (Fin a) (Fin b) = (a \<le> b)"
| "less_eq_double NaN y = False"
| "less_eq_double x NaN = False"
| "less_eq_double NInf y = True"
| "less_eq_double x PInf = True"
| "less_eq_double PInf y = False"
| "less_eq_double (Fin a) NInf = False"

instance ..

end

instance double :: semigroup_add
proof
  fix a b c :: double
  show "a + b + c = a + (b + c)"
    by (cases a; cases b; cases c) simp_all
qed

instance double :: numeral ..

instance double :: power ..

section \<open>The mathematical library and the Arduino core\<close>

text \<open>
  The functions of \<^verbatim>\<open>math.h\<close> that the engine calls, on the values of a double. Each
  follows the C standard at the special values. The names carry the suffix \<open>_d\<close> where
  the plain name is a constant of HOL.
\<close>

fun sqrt_d :: "double \<Rightarrow> double" where
  "sqrt_d (Fin x) = (if 0 \<le> x then Fin (sqrt x) else NaN)"
| "sqrt_d PInf = PInf"
| "sqrt_d NInf = NaN"
| "sqrt_d NaN = NaN"

fun sin_d :: "double \<Rightarrow> double" where
  "sin_d (Fin x) = Fin (sin x)"
| "sin_d PInf = NaN"
| "sin_d NInf = NaN"
| "sin_d NaN = NaN"

fun cos_d :: "double \<Rightarrow> double" where
  "cos_d (Fin x) = Fin (cos x)"
| "cos_d PInf = NaN"
| "cos_d NInf = NaN"
| "cos_d NaN = NaN"

text \<open>
  The tangent is the quotient of sine and cosine in the arithmetic of doubles: where the
  cosine of a real number vanishes the model has an infinity, the limit of the large
  doubles the library returns next to a pole.
\<close>

definition tan_d :: "double \<Rightarrow> double" where
  "tan_d x = sin_d x / cos_d x"

fun atan_d :: "double \<Rightarrow> double" where
  "atan_d (Fin x) = Fin (arctan x)"
| "atan_d PInf = Fin (pi / 2)"
| "atan_d NInf = Fin (- (pi / 2))"
| "atan_d NaN = NaN"

fun log_d :: "double \<Rightarrow> double" where
  "log_d (Fin x) = (if 0 < x then Fin (ln x) else if x = 0 then NInf else NaN)"
| "log_d PInf = PInf"
| "log_d NInf = NaN"
| "log_d NaN = NaN"

fun floor_d :: "double \<Rightarrow> double" where
  "floor_d (Fin x) = Fin (of_int \<lfloor>x\<rfloor>)"
| "floor_d PInf = PInf"
| "floor_d NInf = NInf"
| "floor_d NaN = NaN"

text \<open>
  \<^verbatim>\<open>pow(x, y)\<close>: the exponent is a literal wherever the engine calls it (\<open>2\<close>, \<open>2.0\<close>
  and \<open>0.5\<close>), so it is a real number here.
\<close>

fun pow_d :: "double \<Rightarrow> real \<Rightarrow> double" where
  "pow_d (Fin x) y =
     (if y = 0 then Fin 1
      else if 0 < x then Fin (x powr y)
      else if x = 0 then (if 0 < y then Fin 0 else PInf)
      else if y = of_int \<lfloor>y\<rfloor> then Fin (x powi \<lfloor>y\<rfloor>)
      else NaN)"
| "pow_d PInf y = (if y = 0 then Fin 1 else if 0 < y then PInf else Fin 0)"
| "pow_d NInf y =
     (if y = 0 then Fin 1
      else if y < 0 then Fin 0
      else if y = of_int \<lfloor>y\<rfloor> \<and> odd \<lfloor>y\<rfloor> then NInf else PInf)"
| "pow_d NaN y = (if y = 0 then Fin 1 else NaN)"

text \<open>
  The conversions between \<^verbatim>\<open>int\<close> and \<^verbatim>\<open>double\<close>. The cast \<^verbatim>\<open>(int) x\<close> drops the
  fraction (it truncates toward zero). C++ leaves the cast undefined for a value that is
  not finite or lies outside the range of \<^verbatim>\<open>int\<close>; the model is total, with the
  mathematical truncation of every finite value and \<open>0\<close> for the others, so a
  theorem about a cast describes the program where the value cast is finite and in the
  range of \<^verbatim>\<open>int\<close>, as the degrees of a packed coordinate and the number of a zone
  are. \<^verbatim>\<open>millis()\<close> returns an \<^verbatim>\<open>unsigned long\<close> of 32 bits.
\<close>

fun cast_int :: "double \<Rightarrow> int" where
  "cast_int (Fin x) = (if 0 \<le> x then \<lfloor>x\<rfloor> else \<lceil>x\<rceil>)"
| "cast_int PInf = 0"
| "cast_int NInf = 0"
| "cast_int NaN = 0"

definition double_of_int :: "int \<Rightarrow> double" where
  "double_of_int i = Fin (of_int i)"

definition double_of_ulong :: "32 word \<Rightarrow> double" where
  "double_of_ulong w = Fin (of_nat (unat w))"

text \<open>
  Modelled from the spec: \<^verbatim>\<open>Arduino.h\<close>, which declares \<^verbatim>\<open>PI\<close>, \<^verbatim>\<open>abs\<close> and
  \<^verbatim>\<open>round\<close>, is not among the sources. \<open>PI\<close> is the number \<open>\<pi>\<close>; \<open>abs_d\<close> is
  the absolute value (\<open>Always returns a non-negative value (absolute value taken)\<close>);
  \<open>round_d\<close> rounds to the nearest integer, a tie away from zero (\<open>Results are rounded
  to the nearest centimeter\<close>).
\<close>

definition PI :: double where
  "PI = Fin pi"

fun abs_d :: "double \<Rightarrow> double" where
  "abs_d (Fin x) = Fin \<bar>x\<bar>"
| "abs_d PInf = PInf"
| "abs_d NInf = PInf"
| "abs_d NaN = NaN"

fun round_d :: "double \<Rightarrow> double" where
  "round_d (Fin x) = Fin (of_int (if 0 \<le> x then \<lfloor>x + 1 / 2\<rfloor> else \<lceil>x - 1 / 2\<rceil>))"
| "round_d PInf = PInf"
| "round_d NInf = NInf"
| "round_d NaN = NaN"

section \<open>The targeting engine\<close>

text \<open>
  Modelled from the spec: the class declaration \<^verbatim>\<open>Targeter.h\<close> is not among the
  sources. The record has the fields that the member functions of the class
  read and write: the aircraft state (\<open>AircraftState\<close>), the target state with its
  acceptance radius (\<open>TargetState\<close>) and the two stored diagnostics. Each is a double,
  as the parameters of the setters are.
\<close>

record Targeter =
  currentLatitude :: double
  currentLongitude :: double
  currentAltitude :: double
  currentVelocity :: double
  currentHeading :: double
  currentDataAge :: double
  targetLatitude :: double
  targetLongitude :: double
  targetAltitude :: double
  targetRaduis :: double
  lateralError :: double
  timeToDrop :: double

subsection \<open>Coordinate conversion\<close>

definition convertHeadingToMathAngle :: "double \<Rightarrow> double" where
  "convertHeadingToMathAngle heading =
     (let angle = - 1 * (heading - 90)
      in if angle < 0 then 360 + angle else angle)"

definition convertDecimalDegMinToDegree :: "double \<Rightarrow> double" where
  "convertDecimalDegMinToDegree decimalDegreeMin =
     (let baseDegree = cast_int (decimalDegreeMin / 100);
          baseDegMins = decimalDegreeMin - double_of_int (100 * baseDegree)
      in double_of_int baseDegree + baseDegMins / 60)"

text \<open>
  \<^verbatim>\<open>convertDeg2UTM\<close>, in the order of its statements: the zone, the ladder that selects
  the letter of the latitude band, the two series of the projection (each the
  right-hand side of one assignment of the source, term by term), the false northing and
  the rounding to centimetres. \<open>utmZone_of\<close> and \<open>utmLetter_of\<close> compute the
  local variables \<^verbatim>\<open>utmZone\<close> and \<^verbatim>\<open>utmLetter\<close>.
\<close>

definition utmZone_of :: "double \<Rightarrow> int" where
  "utmZone_of lon = cast_int (floor_d (lon / 6 + 31))"

definition utmLetter_of :: "double \<Rightarrow> char" where
  "utmLetter_of lat =
     (if lat < - 72 then CHR ''C''
      else if lat < - 64 then CHR ''D''
      else if lat < - 56 then CHR ''E''
      else if lat < - 48 then CHR ''F''
      else if lat < - 40 then CHR ''G''
      else if lat < - 32 then CHR ''H''
      else if lat < - 24 then CHR ''J''
      else if lat < - 16 then CHR ''K''
      else if lat < - 8 then CHR ''L''
      else if lat < 0 then CHR ''M''
      else if lat < 8 then CHR ''N''
      else if lat < 16 then CHR ''P''
      else if lat < 24 then CHR ''Q''
      else if lat < 32 then CHR ''R''
      else if lat < 40 then CHR ''S''
      else if lat < 48 then CHR ''T''
      else if lat < 56 then CHR ''U''
      else if lat < 64 then CHR ''V''
      else if lat < 72 then CHR ''W''
      else CHR ''X'')"

definition eastingSeries :: "double \<Rightarrow> double \<Rightarrow> int \<Rightarrow> double" where
  "eastingSeries lat lon utmZone =
     0.5 * log_d ((1 + cos_d (lat * PI / 180) * sin_d (lon * PI / 180 - double_of_int (6 *
       utmZone - 183) * PI / 180)) / (1 - cos_d (lat * PI / 180) * sin_d (lon * PI / 180 -
       double_of_int (6 * utmZone - 183) * PI / 180))) * 0.9996 * 6399593.62 / pow_d ((1 + pow_d
       (0.0820944379) 2 * pow_d (cos_d (lat * PI / 180)) 2)) 0.5 * (1 + pow_d (0.0820944379) 2 /
       2 * pow_d ((0.5 * log_d ((1 + cos_d (lat * PI / 180) * sin_d (lon * PI / 180 -
       double_of_int (6 * utmZone - 183) * PI / 180)) / (1 - cos_d (lat * PI / 180) * sin_d (lon
       * PI / 180 - double_of_int (6 * utmZone - 183) * PI / 180))))) 2 * pow_d (cos_d (lat * PI
       / 180)) 2 / 3) + 500000"

definition northingSeries :: "double \<Rightarrow> double \<Rightarrow> int \<Rightarrow> double" where
  "northingSeries lat lon utmZone =
     (atan_d (tan_d (lat * PI / 180) / cos_d ((lon * PI / 180 - double_of_int (6 * utmZone -
       183) * PI / 180))) - lat * PI / 180) * 0.9996 * 6399593.625 / sqrt_d (1 + 0.006739496742
       * pow_d (cos_d (lat * PI / 180)) 2) * (1 + 0.006739496742 / 2 * pow_d (0.5 * log_d ((1 +
       cos_d (lat * PI / 180) * sin_d ((lon * PI / 180 - double_of_int (6 * utmZone - 183) * PI
       / 180))) / (1 - cos_d (lat * PI / 180) * sin_d ((lon * PI / 180 - double_of_int (6 *
       utmZone - 183) * PI / 180))))) 2 * pow_d (cos_d (lat * PI / 180)) 2) + 0.9996 *
       6399593.625 * (lat * PI / 180 - 0.005054622556 * (lat * PI / 180 + sin_d (2 * lat * PI /
       180) / 2) + 0.00004258201531 * (3 * (lat * PI / 180 + sin_d (2 * lat * PI / 180) / 2) +
       sin_d (2 * lat * PI / 180) * pow_d (cos_d (lat * PI / 180)) 2) / 4 - 0.0000001674057895 *
       (5 * (3 * (lat * PI / 180 + sin_d (2 * lat * PI / 180) / 2) + sin_d (2 * lat * PI / 180)
       * pow_d (cos_d (lat * PI / 180)) 2) / 4 + sin_d (2 * lat * PI / 180) * pow_d (cos_d (lat
       * PI / 180)) 2 * pow_d (cos_d (lat * PI / 180)) 2) / 3)"

definition convertDeg2UTM :: "double \<Rightarrow> double \<Rightarrow> double \<times> double" where
  "convertDeg2UTM lat lon =
     (let utmEasting = eastingSeries lat lon (utmZone_of lon);
          utmEasting = round_d (utmEasting * 100) * 0.01;
          utmNorthing = northingSeries lat lon (utmZone_of lon);
          utmNorthing =
            (if utmLetter_of lat < CHR ''M'' then utmNorthing + 10000000 else utmNorthing);
          utmNorthing = round_d (utmNorthing * 100) * 0.01
      in (utmEasting, utmNorthing))"

subsection \<open>Physical calculations\<close>

definition calculateLateralError :: "Targeter \<Rightarrow> double" where
  "calculateLateralError s =
     (let (currentEasting, currentNorthing) =
            convertDeg2UTM (convertDecimalDegMinToDegree (currentLatitude s))
              (convertDecimalDegMinToDegree (currentLongitude s));
          (targetEasting, targetNorthing) =
            convertDeg2UTM (convertDecimalDegMinToDegree (targetLatitude s))
              (convertDecimalDegMinToDegree (targetLongitude s));
          currentHeadingMathAngle = convertHeadingToMathAngle (currentHeading s);
          x1 = currentEasting + cos_d (currentHeadingMathAngle / 180 * PI) * 2000;
          y1 = currentNorthing + sin_d (currentHeadingMathAngle / 180 * PI) * 2000;
          x2 = currentEasting;
          y2 = currentNorthing;
          x0 = targetEasting;
          y0 = targetNorthing;
          numerator = (y2 - y1) * x0;
          numerator = numerator - (x2 - x1) * y0;
          numerator = numerator + x2 * y1;
          numerator = numerator - y2 * x1;
          numerator = abs_d numerator;
          denominator = pow_d (y2 - y1) 2;
          denominator = denominator + pow_d (x2 - x1) 2;
          denominator = sqrt_d denominator
      in numerator / denominator)"

definition calculateDirectDistanceToTarget :: "Targeter \<Rightarrow> double" where
  "calculateDirectDistanceToTarget s =
     (let (currentEasting, currentNorthing) =
            convertDeg2UTM (convertDecimalDegMinToDegree (currentLatitude s))
              (convertDecimalDegMinToDegree (currentLongitude s));
          (targetEasting, targetNorthing) =
            convertDeg2UTM (convertDecimalDegMinToDegree (targetLatitude s))
              (convertDecimalDegMinToDegree (targetLongitude s));
          dist = sqrt_d (pow_d (targetEasting - currentEasting) 2
                         + pow_d (targetNorthing - currentNorthing) 2)
      in dist)"

definition calculatePathDistanceToTarget :: "Targeter \<Rightarrow> double" where
  "calculatePathDistanceToTarget s =
     (let dist = sqrt_d (pow_d (calculateDirectDistanceToTarget s) 2 - pow_d (lateralError s) 2)
      in dist)"

definition CORRECTION_FACTOR :: double where
  "CORRECTION_FACTOR = 0.9"

definition calculateDropDistance :: "Targeter \<Rightarrow> double" where
  "calculateDropDistance s =
     (let heightm = currentAltitude s - targetAltitude s;
          heightm = (if heightm < 0 then 0 else heightm);
          fallTime = sqrt_d (2 * heightm / 9.807);
          horizDist = currentVelocity s * fallTime * CORRECTION_FACTOR
      in horizDist)"

definition dropDistanceToTarget :: "Targeter \<Rightarrow> double" where
  "dropDistanceToTarget s = calculatePathDistanceToTarget s - calculateDropDistance s"

text \<open>
  \<^verbatim>\<open>calculateTimeToDrop\<close> reads the clock: \<open>millis\<close> is the value \<^verbatim>\<open>millis()\<close> returns
  at the call.
\<close>

definition calculateTimeToDrop :: "Targeter \<Rightarrow> 32 word \<Rightarrow> double" where
  "calculateTimeToDrop s millis =
     (let distRemaining = dropDistanceToTarget s;
          time = (distRemaining
                  - currentVelocity s * ((double_of_ulong millis - currentDataAge s) / 1000))
                 / currentVelocity s
      in time)"

subsection \<open>Getters and setters\<close>

text \<open>
  A member function that changes the object returns the new object, next to its result.
  \<^verbatim>\<open>recalculate\<close> and the two setters call \<^verbatim>\<open>calculateLateralError()\<close> and
  \<^verbatim>\<open>calculateTimeToDrop()\<close> as statements: the values the two calls return are bound
  and not used, as in the source, where no statement assigns to the fields
  \<^verbatim>\<open>lateralError\<close> and \<^verbatim>\<open>timeToDrop\<close>.
\<close>

definition recalculate :: "Targeter \<Rightarrow> 32 word \<Rightarrow> bool" where
  "recalculate s millis =
     (let discarded1 = calculateLateralError s;
          discarded2 = calculateTimeToDrop s millis
      in dropDistanceToTarget s < targetRaduis s)"

definition getLateralError :: "Targeter \<Rightarrow> double" where
  "getLateralError s = lateralError s"

definition getTimeToDrop :: "Targeter \<Rightarrow> double" where
  "getTimeToDrop s = timeToDrop s"

definition setCurrentData ::
  "Targeter \<Rightarrow> double \<Rightarrow> double \<Rightarrow> double \<Rightarrow> double \<Rightarrow> double \<Rightarrow> double \<Rightarrow> 32 word
     \<Rightarrow> bool \<times> Targeter" where
  "setCurrentData s latitude longitude altitude velocity heading dataAge millis =
     (let s = s\<lparr>currentLatitude := latitude, currentLongitude := longitude\<rparr>;
          s = s\<lparr>currentAltitude := altitude, currentVelocity := velocity,
                currentHeading := heading\<rparr>;
          s = s\<lparr>currentDataAge := dataAge\<rparr>;
          discarded1 = calculateLateralError s;
          discarded2 = calculateTimeToDrop s millis
      in (dropDistanceToTarget s < targetRaduis s, s))"

definition setTargetData ::
  "Targeter \<Rightarrow> double \<Rightarrow> double \<Rightarrow> double \<Rightarrow> 32 word \<Rightarrow> Targeter" where
  "setTargetData s latitude longitude altitude millis =
     (let s = s\<lparr>targetLatitude := latitude, targetLongitude := longitude\<rparr>;
          s = s\<lparr>targetAltitude := altitude\<rparr>;
          discarded1 = calculateLateralError s;
          discarded2 = calculateTimeToDrop s millis
      in s)"

subsection \<open>Sequences of calls\<close>

text \<open>
  The firmware owns one engine and calls its entry points in some order, each with the
  value of \<^verbatim>\<open>millis()\<close> at the call. \<open>run\<close> performs a list of calls on an object and
  returns the object after the last; \<^verbatim>\<open>recalculate\<close> assigns no field.
\<close>

datatype call =
    SetCurrentData double double double double double double "32 word"
  | SetTargetData double double double "32 word"
  | Recalculate "32 word"

fun perform :: "Targeter \<Rightarrow> call \<Rightarrow> Targeter" where
  "perform s (SetCurrentData latitude longitude altitude velocity heading dataAge millis) =
     snd (setCurrentData s latitude longitude altitude velocity heading dataAge millis)"
| "perform s (SetTargetData latitude longitude altitude millis) =
     setTargetData s latitude longitude altitude millis"
| "perform s (Recalculate millis) = s"

definition run :: "Targeter \<Rightarrow> call list \<Rightarrow> Targeter" where
  "run s calls = foldl perform s calls"

subsection \<open>The latitude bands as the specification describes them\<close>

text \<open>
  The specification describes the ladder of \<^verbatim>\<open>convertDeg2UTM\<close> as a table: bands of 8
  degrees that do not overlap, with a boundary at every multiple of 8 from -72 to 72,
  lettered C through X with I and O left out. \<open>band_of\<close> reads the table: the letter
  of a latitude is the one whose index is the number of boundaries at or below it.
\<close>

definition band_boundaries :: "real list" where
  "band_boundaries = map (\<lambda>k. 8 * of_int k) [- 9 .. 9]"

definition band_letters :: "char list" where
  "band_letters =
     filter (\<lambda>c. c \<noteq> CHR ''I'' \<and> c \<noteq> CHR ''O'') ''CDEFGHIJKLMNOPQRSTUVWX''"

definition band_of :: "real \<Rightarrow> char" where
  "band_of lat = band_letters ! length (filter (\<lambda>b. b \<le> lat) band_boundaries)"

subsection \<open>Example states\<close>

text \<open>
  The scenario of the repository's targeter test: the first of the test's data points,
  an aircraft south of the target flying north at 10 m/s, 100 m above it.
\<close>

definition scenario :: Targeter where
  "scenario =
     \<lparr>currentLatitude = 4413.546, currentLongitude = - 7629.504, currentAltitude = 100,
      currentVelocity = 10, currentHeading = 360, currentDataAge = 0,
      targetLatitude = 4413.688, targetLongitude = - 7629.518, targetAltitude = 0,
      targetRaduis = 5, lateralError = 0, timeToDrop = 0\<rparr>"

text \<open>
  The engine before its first call: the firmware's \<^verbatim>\<open>Targeter targeter\<close> is a global
  object, so its storage is zeroed, and the constructor assigns nothing.
\<close>

definition power_on :: Targeter where
  "power_on =
     \<lparr>currentLatitude = 0, currentLongitude = 0, currentAltitude = 0,
      currentVelocity = 0, currentHeading = 0, currentDataAge = 0,
      targetLatitude = 0, targetLongitude = 0, targetAltitude = 0,
      targetRaduis = 0, lateralError = 0, timeToDrop = 0\<rparr>"

section \<open>Facts about the arithmetic\<close>

lemma numeral_double [simp]: "(numeral k :: double) = Fin (numeral k)"
proof (induction k)
  case One
  show ?case by (simp add: one_double_def)
next
  case (Bit0 k)
  have r: "(numeral (num.Bit0 k) :: real) = numeral k + numeral k"
    by (simp only: numeral.simps)
  have "(numeral (num.Bit0 k) :: double) = numeral k + numeral k"
    by (simp only: numeral.simps)
  then show ?case
    by (simp only: r Bit0.IH plus_double.simps)
next
  case (Bit1 k)
  have r: "(numeral (num.Bit1 k) :: real) = numeral k + numeral k + 1"
    by (simp only: numeral.simps)
  have "(numeral (num.Bit1 k) :: double) = numeral k + numeral k + 1"
    by (simp only: numeral.simps)
  then show ?case
    by (simp only: r Bit1.IH plus_double.simps one_double_def)
qed

lemma power_double [simp]: "Fin a ^ n = Fin (a ^ n)"
  by (induction n) (simp_all add: one_double_def)

lemma minus_Fin [simp]: "Fin a - Fin b = Fin (a - b)"
  by (simp add: minus_double_def)

lemma zero_Fin [simp]: "(0 :: double) = Fin 0"
  by (simp add: zero_double_def)

lemma one_Fin [simp]: "(1 :: double) = Fin 1"
  by (simp add: one_double_def)

lemma pow_d_2 [simp]: "pow_d (Fin x) 2 = Fin (x\<^sup>2)"
  by (cases "x = 0"; cases "0 < x") (simp_all add: power_int_def)

lemma pow_d_half [simp]: "0 < x \<Longrightarrow> pow_d (Fin x) 0.5 = Fin (sqrt x)"
  by (simp add: powr_half_sqrt)

lemma isfinite_iff: "isfinite x \<longleftrightarrow> (\<exists>r. x = Fin r)"
  by (cases x) simp_all

lemma divide_by_zero_not_finite: "\<not> isfinite (x / Fin 0)"
  by (cases x) simp_all

section \<open>Packed degrees and minutes\<close>

lemma convertDecimalDegMinToDegree_Fin:
  "convertDecimalDegMinToDegree (Fin V) =
     Fin (of_int (if 0 \<le> V then \<lfloor>V / 100\<rfloor> else \<lceil>V / 100\<rceil>)
          + (V - 100 * of_int (if 0 \<le> V then \<lfloor>V / 100\<rfloor> else \<lceil>V / 100\<rceil>)) / 60)"
  by (simp add: convertDecimalDegMinToDegree_def double_of_int_def Let_def)

text \<open>
  Claim C3, as stated: for every packed value \<open>V\<close>, negative values included, the
  result is \<open>floor(V/100) + (V - 100*floor(V/100))/60\<close>. It fails for a negative value
  that is not a whole number of degrees: at \<open>V = -150\<close> (1 degree 50 minutes south or
  west) the cast truncates \<open>-1.5\<close> to \<open>-1\<close>, and the function returns
  \<open>-1 - 50/60\<close>, while the formula with the floor gives \<open>-2 + 50/60\<close>.
\<close>

theorem convertDecimalDegMinToDegree_floor_counterexample:
  "convertDecimalDegMinToDegree (Fin (- 150))
     \<noteq> Fin (of_int \<lfloor>- 150 / 100 :: real\<rfloor>
            + (- 150 - 100 * of_int \<lfloor>- 150 / 100 :: real\<rfloor>) / 60)"
  by (simp add: convertDecimalDegMinToDegree_Fin)

text \<open>
  Claim C3, amended: on a packed value that is not negative the result is
  \<open>floor(V/100) + (V - 100*floor(V/100))/60\<close>, and the function is odd: the result at
  \<open>-V\<close> is the negative of the result at \<open>V\<close>, so that a south or west coordinate is
  the negated north or east one (the cast truncates toward zero).
\<close>

theorem convertDecimalDegMinToDegree_truncates:
  "convertDecimalDegMinToDegree (Fin \<bar>V\<bar>) =
     Fin (of_int \<lfloor>\<bar>V\<bar> / 100\<rfloor> + (\<bar>V\<bar> - 100 * of_int \<lfloor>\<bar>V\<bar> / 100\<rfloor>) / 60)
   \<and> convertDecimalDegMinToDegree (Fin (- V)) = - convertDecimalDegMinToDegree (Fin V)"
proof
  show "convertDecimalDegMinToDegree (Fin \<bar>V\<bar>) =
     Fin (of_int \<lfloor>\<bar>V\<bar> / 100\<rfloor> + (\<bar>V\<bar> - 100 * of_int \<lfloor>\<bar>V\<bar> / 100\<rfloor>) / 60)"
    by (simp add: convertDecimalDegMinToDegree_Fin)
  show "convertDecimalDegMinToDegree (Fin (- V)) = - convertDecimalDegMinToDegree (Fin V)"
  proof (cases "V = 0")
    case True
    then show ?thesis
      by (simp add: convertDecimalDegMinToDegree_Fin)
  next
    case False
    then show ?thesis
      by (cases "0 \<le> V") (simp_all add: convertDecimalDegMinToDegree_Fin ceiling_def field_simps)
  qed
qed

section \<open>The projection\<close>

lemma one_plus_sq_pos [simp]: "0 < 1 + k\<^sup>2 * (x::real)\<^sup>2" "0 < 1 + (x::real)\<^sup>2"
  by (simp_all add: add_pos_nonneg)

lemma one_plus_sq_ne0 [simp]: "1 + k\<^sup>2 * (x::real)\<^sup>2 \<noteq> 0" "1 + (x::real)\<^sup>2 \<noteq> 0"
  using one_plus_sq_pos(1) [of k x] one_plus_sq_pos(2) [of x] by linarith+

lemma utmZone_of_Fin: "utmZone_of (Fin lon) = \<lfloor>lon / 6 + 31\<rfloor>"
  by (simp add: utmZone_of_def)

lemma convertDeg2UTM_central_equator: "convertDeg2UTM (Fin 0) (Fin 3) = (Fin 500000, Fin 0)"
proof -
  have e: "eastingSeries (Fin 0) (Fin 3) 31 = Fin 500000"
    by (simp add: eastingSeries_def PI_def double_of_int_def)
  have n: "northingSeries (Fin 0) (Fin 3) 31 = Fin 0"
    by (simp add: northingSeries_def PI_def double_of_int_def tan_d_def)
  have l: "utmLetter_of (Fin 0) = CHR ''N''"
    by (simp add: utmLetter_of_def)
  show ?thesis
    by (simp add: convertDeg2UTM_def utmZone_of_Fin e n l less_char_def)
qed

text \<open>
  The offset of a longitude from the central meridian of its zone lies in \<open>[-3, 3)\<close>
  degrees, so its sine is less than 1 in absolute value and its cosine is positive.
\<close>

lemma zone_offset_bounds:
  fixes lon :: real
  defines "z \<equiv> \<lfloor>lon / 6 + 31\<rfloor>"
  shows "- 3 \<le> lon - of_int (6 * z - 183)" "lon - of_int (6 * z - 183) < 3"
proof -
  have "of_int z \<le> lon / 6 + 31" "lon / 6 + 31 < of_int z + 1"
    unfolding z_def by linarith+
  then show "- 3 \<le> lon - of_int (6 * z - 183)" "lon - of_int (6 * z - 183) < 3"
    by simp_all
qed

lemma small_angle:
  fixes d :: real
  assumes "- 3 \<le> d" "d < 3"
  shows "\<bar>sin (d * pi / 180)\<bar> < 1" "0 < cos (d * pi / 180)"
proof -
  have "(- 3) * pi \<le> d * pi"
    using assms(1) by (rule mult_right_mono) simp
  moreover have "d * pi < 3 * pi"
    using assms(2) by (rule mult_strict_right_mono) simp
  ultimately
  have b: "- (pi / 2) < d * pi / 180" "d * pi / 180 < pi / 2"
    using pi_gt_zero by linarith+
  show c: "0 < cos (d * pi / 180)"
    using b by (rule cos_gt_zero_pi)
  have "(sin (d * pi / 180))\<^sup>2 = 1 - (cos (d * pi / 180))\<^sup>2"
    by (simp add: sin_squared_eq)
  moreover have "0 < (cos (d * pi / 180))\<^sup>2"
    using c by simp
  ultimately have "(sin (d * pi / 180))\<^sup>2 < 1"
    by linarith
  then show "\<bar>sin (d * pi / 180)\<bar> < 1"
    by (simp add: abs_square_less_1)
qed

lemma abs_mult_less_1:
  fixes c sn :: real
  assumes "\<bar>c\<bar> \<le> 1" "\<bar>sn\<bar> < 1"
  shows "\<bar>c * sn\<bar> < 1"
proof -
  have "\<bar>c * sn\<bar> = \<bar>c\<bar> * \<bar>sn\<bar>"
    by (simp add: abs_mult)
  also have "\<dots> \<le> 1 * \<bar>sn\<bar>"
    using assms(1) by (intro mult_right_mono) simp_all
  finally show ?thesis
    using assms(2) by simp
qed

lemma one_plus_mult_sq_pos:
  fixes k x :: real
  assumes "0 \<le> k"
  shows "0 < 1 + k * x\<^sup>2"
  using assms by (simp add: add_pos_nonneg)

lemma atan_tan_finite:
  assumes "0 < c"
  shows "isfinite (atan_d (tan_d (Fin x) / Fin c))"
proof (cases "cos x = 0")
  case True
  then have "sin x \<noteq> 0"
    using sin_cos_squared_add [of x] by auto
  with True assms show ?thesis
    by (cases "0 < sin x") (simp_all add: tan_d_def)
next
  case False
  with assms show ?thesis
    by (simp add: tan_d_def)
qed

lemma eastingSeries_finite:
  "isfinite (eastingSeries (Fin lat) (Fin lon) \<lfloor>lon / 6 + 31\<rfloor>)"
proof -
  define z where "z = \<lfloor>lon / 6 + 31\<rfloor>"
  define d where "d = lon - of_int (6 * z - 183)"
  have d: "- 3 \<le> d" "d < 3"
    unfolding d_def z_def by (rule zone_offset_bounds)+
  have dl: "lon * pi / 180 - (6 * real_of_int z - 183) * pi / 180 = d * pi / 180"
    unfolding d_def by (simp add: algebra_simps diff_divide_distrib)
  define a where "a = cos (lat * pi / 180) * sin (d * pi / 180)"
  have a: "\<bar>a\<bar> < 1"
    unfolding a_def using small_angle(1) [OF d] by (intro abs_mult_less_1) simp_all
  then have a1: "a \<noteq> 1" "0 < (1 + a) / (1 - a)"
    by (simp_all add: zero_less_divide_iff) linarith+
  show ?thesis
    unfolding eastingSeries_def PI_def double_of_int_def z_def [symmetric]
    by (simp add: dl a_def [symmetric] a1)
qed

lemma northingSeries_finite:
  "isfinite (northingSeries (Fin lat) (Fin lon) \<lfloor>lon / 6 + 31\<rfloor>)"
proof -
  define z where "z = \<lfloor>lon / 6 + 31\<rfloor>"
  define d where "d = lon - of_int (6 * z - 183)"
  have d: "- 3 \<le> d" "d < 3"
    unfolding d_def z_def by (rule zone_offset_bounds)+
  have dl: "lon * pi / 180 - (6 * real_of_int z - 183) * pi / 180 = d * pi / 180"
    unfolding d_def by (simp add: algebra_simps diff_divide_distrib)
  define a where "a = cos (lat * pi / 180) * sin (d * pi / 180)"
  have a: "\<bar>a\<bar> < 1"
    unfolding a_def using small_angle(1) [OF d] by (intro abs_mult_less_1) simp_all
  then have a1: "a \<noteq> 1" "0 < (1 + a) / (1 - a)"
    by (simp_all add: zero_less_divide_iff) linarith+
  obtain r where r: "atan_d (tan_d (Fin (lat * pi / 180)) / Fin (cos (d * pi / 180))) = Fin r"
    using atan_tan_finite [OF small_angle(2) [OF d]] unfolding isfinite_iff by blast
  have "0 < 1 + 3369748371 * (cos (lat * pi / 180))\<^sup>2 / 500000000000"
    using one_plus_mult_sq_pos [of "3369748371 / 500000000000" "cos (lat * pi / 180)"] by simp
  then have k: "0 < 1 + 3369748371 * (cos (lat * pi / 180))\<^sup>2 / 500000000000"
      "1 + 3369748371 * (cos (lat * pi / 180))\<^sup>2 / 500000000000 \<noteq> 0"
    by simp_all
  show ?thesis
    unfolding northingSeries_def PI_def double_of_int_def z_def [symmetric]
    by (simp add: dl a_def [symmetric] a1 r k)
qed

lemma convertDeg2UTM_finite:
  "\<exists>e n. convertDeg2UTM (Fin lat) (Fin lon) = (Fin e, Fin n)"
proof -
  obtain e where e: "eastingSeries (Fin lat) (Fin lon) \<lfloor>lon / 6 + 31\<rfloor> = Fin e"
    using eastingSeries_finite [of lat lon] unfolding isfinite_iff by blast
  obtain n where n: "northingSeries (Fin lat) (Fin lon) \<lfloor>lon / 6 + 31\<rfloor> = Fin n"
    using northingSeries_finite [of lat lon] unfolding isfinite_iff by blast
  have "isfinite (fst (convertDeg2UTM (Fin lat) (Fin lon)))
        \<and> isfinite (snd (convertDeg2UTM (Fin lat) (Fin lon)))"
    unfolding convertDeg2UTM_def utmZone_of_Fin e n Let_def
    by (cases "utmLetter_of (Fin lat) < CHR ''M''") simp_all
  then show ?thesis
    unfolding isfinite_iff by (metis prod.collapse)
qed

text \<open>
  One degree north of the equator on the central meridian of zone 31: the northing is at
  least 1 m (it is about 110.6 km; the crude bound is all that is needed below).
\<close>

lemma tan_d_Fin: "cos x \<noteq> 0 \<Longrightarrow> tan_d (Fin x) = Fin (tan x)"
  by (simp add: tan_d_def tan_def)

lemma one_degree: "- (pi / 2) < pi / 180" "pi / 180 < pi / 2" "cos (pi / 180) \<noteq> 0"
proof -
  show a: "- (pi / 2) < pi / 180" "pi / 180 < pi / 2"
    using pi_gt_zero by linarith+
  show "cos (pi / 180) \<noteq> 0"
    using cos_gt_zero_pi [OF a] by simp
qed

lemma abs_sin_cos_sq:
  fixes x y :: real
  shows "\<bar>sin x * (cos y)\<^sup>2\<bar> \<le> 1" "\<bar>sin x * (cos y)\<^sup>2 * (cos y)\<^sup>2\<bar> \<le> 1"
proof -
  have c: "0 \<le> (cos y)\<^sup>2" "(cos y)\<^sup>2 \<le> 1"
    by (simp_all add: abs_square_le_1)
  have s: "\<bar>sin x\<bar> \<le> 1"
    by simp
  show p: "\<bar>sin x * (cos y)\<^sup>2\<bar> \<le> 1"
    unfolding abs_mult using s c by (simp add: mult_le_one)
  show "\<bar>sin x * (cos y)\<^sup>2 * (cos y)\<^sup>2\<bar> \<le> 1"
    unfolding abs_mult [of "sin x * (cos y)\<^sup>2"] using p c by (simp add: mult_le_one)
qed

lemma northing_one_degree:
  "\<exists>n. northingSeries (Fin 1) (Fin 3) 31 = Fin n \<and> 1 \<le> n"
proof -
  define S where "S = sin (pi / 90)"
  define P where "P = sin (pi / 90) * (cos (pi / 180))\<^sup>2"
  define Q where "Q = sin (pi / 90) * (cos (pi / 180))\<^sup>2 * (cos (pi / 180))\<^sup>2"
  define A where "A = pi / 180 + S / 2"
  define B where "B = 3 * A + P"
  define C where "C = 5 * B / 4 + Q"
  define n where "n = 0.9996 * 6399593.625
      * (pi / 180 - 0.005054622556 * A + 0.00004258201531 * B / 4
         - 0.0000001674057895 * C / 3)"
  have "0 < 1 + 3369748371 * (cos (pi / 180))\<^sup>2 / 500000000000"
    using one_plus_mult_sq_pos [of "3369748371 / 500000000000" "cos (pi / 180)"] by simp
  then have k: "1 + 3369748371 * (cos (pi / 180))\<^sup>2 / 500000000000 \<noteq> 0"
    by simp
  have eq: "northingSeries (Fin 1) (Fin 3) 31 = Fin n"
    unfolding northingSeries_def PI_def double_of_int_def n_def A_def B_def C_def P_def Q_def S_def
    by (simp add: tan_d_Fin one_degree arctan_tan k)
  have b: "\<bar>S\<bar> \<le> 1" "\<bar>P\<bar> \<le> 1" "\<bar>Q\<bar> \<le> 1"
    unfolding S_def P_def Q_def by (simp_all add: abs_sin_cos_sq)
  have p: "2 \<le> pi" "pi < 4"
    by (rule pi_ge_two, rule pi_less_4)
  have a: "A \<le> 1" "- 1 \<le> A"
    unfolding A_def using b(1) p by linarith+
  then have bb: "B \<le> 4" "- 4 \<le> B"
    unfolding B_def using b(2) by linarith+
  then have cc: "C \<le> 6" "- 6 \<le> C"
    unfolding C_def using b(3) by linarith+
  have "1 / 1000 \<le> pi / 180 - 0.005054622556 * A + 0.00004258201531 * B / 4
         - 0.0000001674057895 * C / 3"
    using a bb cc p by (simp; linarith)
  then have "0.9996 * 6399593.625 * (1 / 1000) \<le> n"
    unfolding n_def by (intro mult_left_mono) simp_all
  then have "1 \<le> n"
    by simp
  with eq show ?thesis
    by blast
qed

lemma convertDeg2UTM_one_degree:
  "\<exists>tN. convertDeg2UTM (Fin 1) (Fin 3) = (Fin 500000, Fin tN) \<and> 1 \<le> tN"
proof -
  obtain n where n: "northingSeries (Fin 1) (Fin 3) 31 = Fin n" "1 \<le> n"
    using northing_one_degree by blast
  have e: "eastingSeries (Fin 1) (Fin 3) 31 = Fin 500000"
    by (simp add: eastingSeries_def PI_def double_of_int_def)
  have l: "utmLetter_of (Fin 1) = CHR ''N''"
    by (simp add: utmLetter_of_def)
  have z: "utmZone_of (Fin 3) = 31"
    by (simp add: utmZone_of_def)
  have "100 \<le> \<lfloor>n * 100 + 1 / 2\<rfloor>"
    using n(2) by (simp add: le_floor_iff)
  then have "1 \<le> real_of_int \<lfloor>n * 100 + 1 / 2\<rfloor> * (1 / 100)"
    by simp
  moreover have "convertDeg2UTM (Fin 1) (Fin 3)
      = (Fin 500000, Fin (real_of_int \<lfloor>n * 100 + 1 / 2\<rfloor> * (1 / 100)))"
    unfolding convertDeg2UTM_def z e n(1) l Let_def using n(2)
    by (simp add: less_char_def)
  ultimately show ?thesis
    by blast
qed

lemma band_boundaries_eq:
  "band_boundaries =
     [- 72, - 64, - 56, - 48, - 40, - 32, - 24, - 16, - 8, 0, 8, 16, 24, 32, 40, 48, 56, 64, 72]"
  by (simp add: band_boundaries_def upto_rec1)

lemma band_letters_eq: "band_letters = ''CDEFGHJKLMNPQRSTUVWX''"
  by (simp add: band_letters_def)

lemma utmLetter_of_band: "utmLetter_of (Fin lat) = band_of lat"
  unfolding utmLetter_of_def band_of_def band_boundaries_eq band_letters_eq
  by simp

lemma utmLetter_of_south: "utmLetter_of (Fin lat) < CHR ''M'' \<longleftrightarrow> lat < - 8"
  by (simp add: utmLetter_of_def less_char_def)

text \<open>
  Claim C7: for every latitude and longitude (finite), the zone is
  \<open>floor(longitude/6 + 31)\<close>; the letter is the one of the table of 8 degree bands
  (\<open>band_of\<close>); and the northing is the series plus a false northing of 10,000,000 m
  exactly when the letter precedes \<open>M\<close>, which is when the latitude is below -8
  degrees, rounded to centimetres.
\<close>

theorem convertDeg2UTM_zone_band_false_northing:
  "utmZone_of (Fin lon) = \<lfloor>lon / 6 + 31\<rfloor>
   \<and> utmLetter_of (Fin lat) = band_of lat
   \<and> (utmLetter_of (Fin lat) < CHR ''M'') = (lat < - 8)
   \<and> snd (convertDeg2UTM (Fin lat) (Fin lon)) =
       round_d ((northingSeries (Fin lat) (Fin lon) (utmZone_of (Fin lon))
                 + (if utmLetter_of (Fin lat) < CHR ''M'' then 10000000 else 0)) * 100) * 0.01"
proof -
  obtain n where n: "northingSeries (Fin lat) (Fin lon) \<lfloor>lon / 6 + 31\<rfloor> = Fin n"
    using northingSeries_finite [of lat lon] unfolding isfinite_iff by blast
  have "snd (convertDeg2UTM (Fin lat) (Fin lon)) =
       round_d ((northingSeries (Fin lat) (Fin lon) (utmZone_of (Fin lon))
                 + (if utmLetter_of (Fin lat) < CHR ''M'' then 10000000 else 0)) * 100) * 0.01"
    unfolding convertDeg2UTM_def utmZone_of_Fin n Let_def
    by (cases "utmLetter_of (Fin lat) < CHR ''M''") simp_all
  then show ?thesis
    using utmZone_of_Fin [of lon] utmLetter_of_band [of lat] utmLetter_of_south [of lat]
    by simp
qed

section \<open>Lateral error and path distance\<close>

lemma convertHeadingToMathAngle_Fin:
  "convertHeadingToMathAngle (Fin h) = Fin (if 90 < h then 450 - h else 90 - h)"
  by (simp add: convertHeadingToMathAngle_def Let_def)

lemma calculateLateralError_Fin:
  assumes c: "convertDeg2UTM (convertDecimalDegMinToDegree (currentLatitude s))
              (convertDecimalDegMinToDegree (currentLongitude s)) = (Fin cE, Fin cN)"
    and t: "convertDeg2UTM (convertDecimalDegMinToDegree (targetLatitude s))
              (convertDecimalDegMinToDegree (targetLongitude s)) = (Fin tE, Fin tN)"
    and h: "convertHeadingToMathAngle (currentHeading s) = Fin a"
  shows "calculateLateralError s =
           Fin (\<bar>(cN - (cN + sin (a / 180 * pi) * 2000)) * tE
                 - (cE - (cE + cos (a / 180 * pi) * 2000)) * tN
                 + cE * (cN + sin (a / 180 * pi) * 2000)
                 - cN * (cE + cos (a / 180 * pi) * 2000)\<bar> / 2000)"
proof -
  define x1 where "x1 = Fin cE + cos_d (Fin a / 180 * PI) * 2000"
  define y1 where "y1 = Fin cN + sin_d (Fin a / 180 * PI) * 2000"
  define sn where "sn = sin (a / 180 * pi)"
  define cs where "cs = cos (a / 180 * pi)"
  have x1: "x1 = Fin (cE + cs * 2000)"
    by (simp add: x1_def PI_def cs_def)
  have y1: "y1 = Fin (cN + sn * 2000)"
    by (simp add: y1_def PI_def sn_def)
  have unfolded: "calculateLateralError s =
      abs_d ((Fin cN - y1) * Fin tE - (Fin cE - x1) * Fin tN + Fin cE * y1 - Fin cN * x1)
      / sqrt_d (pow_d (Fin cN - y1) 2 + pow_d (Fin cE - x1) 2)"
    unfolding calculateLateralError_def c t h x1_def y1_def
    by (simp only: Let_def prod.case)
  have "(cN - (cN + sn * 2000))\<^sup>2 + (cE - (cE + cs * 2000))\<^sup>2 = 2000\<^sup>2 * (sn\<^sup>2 + cs\<^sup>2)"
    by (simp add: power2_eq_square algebra_simps)
  also have "sn\<^sup>2 + cs\<^sup>2 = 1"
    by (simp add: sn_def cs_def)
  finally have "sqrt ((cN - (cN + sn * 2000))\<^sup>2 + (cE - (cE + cs * 2000))\<^sup>2) = 2000"
    by simp
  then have den: "sqrt_d (pow_d (Fin cN - y1) 2 + pow_d (Fin cE - x1) 2) = Fin 2000"
    unfolding x1 y1 by (simp only: minus_Fin pow_d_2 plus_double.simps sqrt_d.simps) simp
  have num: "abs_d ((Fin cN - y1) * Fin tE - (Fin cE - x1) * Fin tN + Fin cE * y1 - Fin cN * x1)
      = Fin \<bar>(cN - (cN + sn * 2000)) * tE - (cE - (cE + cs * 2000)) * tN
             + cE * (cN + sn * 2000) - cN * (cE + cs * 2000)\<bar>"
    unfolding x1 y1
    by (simp only: minus_Fin times_double.simps plus_double.simps abs_d.simps)
  show ?thesis
    unfolding unfolded den num sn_def cs_def by simp
qed

text \<open>
  Whatever the state, finite or not, the result is never negative: it is the quotient of
  an absolute value and a square root.
\<close>

lemma abs_over_sqrt_not_negative: "\<not> abs_d x / sqrt_d y < 0"
  by (cases x; cases y) (simp_all add: zero_le_divide_iff not_less)

lemma calculateLateralError_never_negative: "\<not> calculateLateralError s < 0"
  unfolding calculateLateralError_def Let_def split_beta
  by (rule abs_over_sqrt_not_negative)

text \<open>
  Claim C9: for every state whose positions and heading are numbers (the velocity plays
  no part, zero included), \<open>calculateLateralError\<close> returns a number that is not
  negative.
\<close>

theorem calculateLateralError_nonneg:
  assumes "isfinite (currentLatitude s)" "isfinite (currentLongitude s)"
    and "isfinite (targetLatitude s)" "isfinite (targetLongitude s)"
    and "isfinite (currentHeading s)"
  shows "\<exists>x. 0 \<le> x \<and> calculateLateralError s = Fin x"
proof -
  from assms obtain clat clon tlat tlon h where f:
    "currentLatitude s = Fin clat" "currentLongitude s = Fin clon"
    "targetLatitude s = Fin tlat" "targetLongitude s = Fin tlon" "currentHeading s = Fin h"
    unfolding isfinite_iff by blast
  obtain cE cN where c: "convertDeg2UTM (convertDecimalDegMinToDegree (currentLatitude s))
              (convertDecimalDegMinToDegree (currentLongitude s)) = (Fin cE, Fin cN)"
    unfolding f convertDecimalDegMinToDegree_Fin using convertDeg2UTM_finite by blast
  obtain tE tN where t: "convertDeg2UTM (convertDecimalDegMinToDegree (targetLatitude s))
              (convertDecimalDegMinToDegree (targetLongitude s)) = (Fin tE, Fin tN)"
    unfolding f convertDecimalDegMinToDegree_Fin using convertDeg2UTM_finite by blast
  obtain a where a: "convertHeadingToMathAngle (currentHeading s) = Fin a"
    unfolding f convertHeadingToMathAngle_Fin by blast
  from calculateLateralError_Fin [OF c t a]
  obtain x where "calculateLateralError s = Fin (\<bar>x\<bar> / 2000)"
    by blast
  moreover have "0 \<le> \<bar>x\<bar> / 2000"
    by simp
  ultimately show ?thesis
    by blast
qed

theorem calculateLateralError_nonneg_witness:
  "isfinite (currentLatitude (scenario\<lparr>currentVelocity := 0\<rparr>))
   \<and> isfinite (currentLongitude (scenario\<lparr>currentVelocity := 0\<rparr>))
   \<and> isfinite (targetLatitude (scenario\<lparr>currentVelocity := 0\<rparr>))
   \<and> isfinite (targetLongitude (scenario\<lparr>currentVelocity := 0\<rparr>))
   \<and> isfinite (currentHeading (scenario\<lparr>currentVelocity := 0\<rparr>))
   \<and> (\<exists>x. 0 \<le> x \<and> calculateLateralError (scenario\<lparr>currentVelocity := 0\<rparr>) = Fin x)"
  using calculateLateralError_nonneg [of "scenario\<lparr>currentVelocity := 0\<rparr>"]
  by (simp add: scenario_def)

lemma calculatePathDistanceToTarget_Fin:
  assumes "calculateDirectDistanceToTarget s = Fin d" "lateralError s = Fin l"
  shows "calculatePathDistanceToTarget s
           = (if l\<^sup>2 \<le> d\<^sup>2 then Fin (sqrt (d\<^sup>2 - l\<^sup>2)) else NaN)"
  using assms by (simp add: calculatePathDistanceToTarget_def)









section \<open>Drop distance\<close>

lemma calculateDropDistance_Fin:
  assumes "currentAltitude s = Fin ca" "targetAltitude s = Fin ta" "currentVelocity s = Fin v"
  shows "calculateDropDistance s = Fin (v * sqrt (2 * max (ca - ta) 0 / 9.807) * 0.9)"
  using assms
  by (simp add: calculateDropDistance_def CORRECTION_FACTOR_def Let_def max_def)

text \<open>
  Claim C6: for every state (of numbers: altitudes and velocity finite),
  \<open>calculateDropDistance\<close> returns
  \<open>currentVelocity * sqrt(2*max(currentAltitude - targetAltitude, 0)/9.807) * 0.9\<close>;
  when the height delta is negative the result is 0, not NaN.
\<close>

theorem calculateDropDistance_formula:
  assumes "currentAltitude s = Fin ca" "targetAltitude s = Fin ta" "currentVelocity s = Fin v"
  shows "calculateDropDistance s = Fin (v * sqrt (2 * max (ca - ta) 0 / 9.807) * 0.9)
         \<and> (ca - ta < 0 \<longrightarrow> calculateDropDistance s = Fin 0)"
  using assms by (simp add: calculateDropDistance_Fin max_def)

theorem calculateDropDistance_formula_witness:
  "currentAltitude (scenario\<lparr>currentAltitude := 10, targetAltitude := 50\<rparr>) = Fin 10
   \<and> targetAltitude (scenario\<lparr>currentAltitude := 10, targetAltitude := 50\<rparr>) = Fin 50
   \<and> currentVelocity (scenario\<lparr>currentAltitude := 10, targetAltitude := 50\<rparr>) = Fin 10
   \<and> (10 :: real) - 50 < 0
   \<and> calculateDropDistance (scenario\<lparr>currentAltitude := 10, targetAltitude := 50\<rparr>) = Fin 0"
  using calculateDropDistance_formula
    [of "scenario\<lparr>currentAltitude := 10, targetAltitude := 50\<rparr>" 10 50 10]
  by (simp add: scenario_def)

text \<open>
  Claim C8, as stated: of two states that differ only in the height delta, the one with
  the larger height delta has a drop distance at least as large. It fails when the
  velocity is negative: with a velocity of -1 m/s, raising the aircraft from 0 m to
  19.614 m above the target (a fall of 2 s) lowers the drop distance from 0 to -1.8.
\<close>

theorem calculateDropDistance_height_counterexample:
  "calculateDropDistance (scenario\<lparr>currentVelocity := - 1, currentAltitude := 0\<rparr>) = Fin 0
   \<and> calculateDropDistance (scenario\<lparr>currentVelocity := - 1, currentAltitude := 19.614\<rparr>)
       = Fin (- 1.8)
   \<and> \<not> calculateDropDistance (scenario\<lparr>currentVelocity := - 1, currentAltitude := 0\<rparr>)
       \<le> calculateDropDistance (scenario\<lparr>currentVelocity := - 1, currentAltitude := 19.614\<rparr>)"
proof -
  have "calculateDropDistance (scenario\<lparr>currentVelocity := - 1, currentAltitude := 0\<rparr>) = Fin 0"
    using calculateDropDistance_Fin
      [of "scenario\<lparr>currentVelocity := - 1, currentAltitude := 0\<rparr>" 0 0 "- 1"]
    by (simp add: scenario_def)
  moreover have "calculateDropDistance (scenario\<lparr>currentVelocity := - 1, currentAltitude := 19.614\<rparr>)
       = Fin (- 1.8)"
    using calculateDropDistance_Fin
      [of "scenario\<lparr>currentVelocity := - 1, currentAltitude := 19.614\<rparr>" "19.614" 0 "- 1"]
    by (simp add: scenario_def)
  ultimately show ?thesis by simp
qed

text \<open>
  Claim C8, amended: of two states (of numbers) with the same height delta, the one with
  the larger velocity has a drop distance at least as large; of two states with the same
  velocity, which is not negative, the one with the larger height delta has a drop
  distance at least as large.
\<close>

theorem calculateDropDistance_mono:
  assumes "currentVelocity s1 = Fin v1" "currentAltitude s1 = Fin a1" "targetAltitude s1 = Fin t1"
      and "currentVelocity s2 = Fin v2" "currentAltitude s2 = Fin a2" "targetAltitude s2 = Fin t2"
  shows "(a1 - t1 = a2 - t2 \<and> v1 \<le> v2
            \<longrightarrow> calculateDropDistance s1 \<le> calculateDropDistance s2)
       \<and> (v1 = v2 \<and> 0 \<le> v1 \<and> a1 - t1 \<le> a2 - t2
            \<longrightarrow> calculateDropDistance s1 \<le> calculateDropDistance s2)"
proof -
  let ?f = "\<lambda>h :: real. sqrt (2 * max h 0 / 9.807)"
  have d1: "calculateDropDistance s1 = Fin (v1 * ?f (a1 - t1) * 0.9)"
    by (rule calculateDropDistance_Fin [OF assms(2,3,1)])
  have d2: "calculateDropDistance s2 = Fin (v2 * ?f (a2 - t2) * 0.9)"
    by (rule calculateDropDistance_Fin [OF assms(5,6,4)])
  have nonneg: "0 \<le> ?f h" for h
    by simp
  have mono: "?f h1 \<le> ?f h2" if "h1 \<le> h2" for h1 h2
    using that by (simp add: max_def)
  have "v1 * ?f (a1 - t1) \<le> v2 * ?f (a2 - t2)" if "a1 - t1 = a2 - t2" "v1 \<le> v2"
    using that nonneg [of "a2 - t2"] by (simp add: mult_right_mono)
  moreover have "v1 * ?f (a1 - t1) \<le> v2 * ?f (a2 - t2)"
    if "v1 = v2" "0 \<le> v1" "a1 - t1 \<le> a2 - t2"
    using that mono [of "a1 - t1" "a2 - t2"] by (simp add: mult_left_mono)
  ultimately show ?thesis
    unfolding d1 d2 by simp
qed

theorem calculateDropDistance_mono_witness:
  "currentVelocity scenario = Fin 10 \<and> currentAltitude scenario = Fin 100
   \<and> targetAltitude scenario = Fin 0
   \<and> calculateDropDistance scenario \<le> calculateDropDistance (scenario\<lparr>currentVelocity := 20\<rparr>)
   \<and> calculateDropDistance scenario \<le> calculateDropDistance (scenario\<lparr>currentAltitude := 150\<rparr>)"
  using
    calculateDropDistance_mono
      [of scenario 10 100 0 "scenario\<lparr>currentVelocity := 20\<rparr>" 20 100 0]
    calculateDropDistance_mono
      [of scenario 10 100 0 "scenario\<lparr>currentAltitude := 150\<rparr>" 10 150 0]
  by (simp add: scenario_def)

section \<open>The release decision\<close>

lemma abeam_one_degree:
  assumes "currentLatitude s = 0" "currentLongitude s = 300" "currentHeading s = 90"
    and "targetLatitude s = 100" "targetLongitude s = 300"
  shows "\<exists>tN. 1 \<le> tN \<and> calculateDirectDistanceToTarget s = Fin tN
           \<and> calculateLateralError s = Fin tN"
proof -
  obtain tN where t: "convertDeg2UTM (Fin 1) (Fin 3) = (Fin 500000, Fin tN)" and tN: "1 \<le> tN"
    using convertDeg2UTM_one_degree by blast
  have c': "convertDeg2UTM (convertDecimalDegMinToDegree (currentLatitude s))
              (convertDecimalDegMinToDegree (currentLongitude s)) = (Fin 500000, Fin 0)"
    by (simp add: assms convertDecimalDegMinToDegree_Fin convertDeg2UTM_central_equator)
  have t': "convertDeg2UTM (convertDecimalDegMinToDegree (targetLatitude s))
              (convertDecimalDegMinToDegree (targetLongitude s)) = (Fin 500000, Fin tN)"
    by (simp add: assms convertDecimalDegMinToDegree_Fin t)
  have a': "convertHeadingToMathAngle (currentHeading s) = Fin 0"
    by (simp add: assms convertHeadingToMathAngle_Fin)
  have "calculateLateralError s = Fin tN"
    unfolding calculateLateralError_Fin [OF c' t' a'] using tN by simp
  moreover have "calculateDirectDistanceToTarget s = Fin tN"
    unfolding calculateDirectDistanceToTarget_def c' t' using tN by simp
  ultimately show ?thesis
    using tN by blast
qed

text \<open>
  Claim C4 says that the decision is \<open>remainingDistance < targetRadius\<close> with
  \<open>remainingDistance = pathDistance - dropLeadDistance\<close>, and that \<open>setTargetData\<close>
  recomputes the diagnostics. The path distance of the decision is taken from the
  stored field \<^verbatim>\<open>lateralError\<close>, which no call writes (the defect of claim C1), so the
  decision is made with a lateral error of 0. From the engine as it is before its first
  call (acceptance radius 0), the target is set one degree north of the equator at 3
  degrees east, and telemetry puts the aircraft on the equator at 3 degrees east,
  heading east at 1 m/s, 4.9035 m up (a drop distance of 0.9 m): the target is abeam,
  so the path distance is 0 and the remaining distance -0.9 m, below the radius; but
  \<open>setCurrentData\<close> and \<open>recalculate\<close> return false, having taken the direct distance
  (more than 1 m) for the path distance.
\<close>

theorem release_decision_reads_stale_lateral_error:
  "\<not> fst (setCurrentData (setTargetData power_on 100 300 0 0) 0 300 4.9035 1 90 0 1000)
   \<and> \<not> recalculate
        (snd (setCurrentData (setTargetData power_on 100 300 0 0) 0 300 4.9035 1 90 0 1000)) 1000
   \<and> calculatePathDistanceToTarget
        ((snd (setCurrentData (setTargetData power_on 100 300 0 0) 0 300 4.9035 1 90 0 1000))
           \<lparr>lateralError := calculateLateralError
              (snd (setCurrentData (setTargetData power_on 100 300 0 0)
                      0 300 4.9035 1 90 0 1000))\<rparr>)
       - calculateDropDistance
          (snd (setCurrentData (setTargetData power_on 100 300 0 0) 0 300 4.9035 1 90 0 1000))
       < targetRaduis
          (snd (setCurrentData (setTargetData power_on 100 300 0 0) 0 300 4.9035 1 90 0 1000))"
proof -
  define s where "s = power_on\<lparr>targetLatitude := 100, targetLongitude := 300,
      currentLongitude := 300, currentAltitude := 4.9035, currentVelocity := 1,
      currentHeading := 90\<rparr>"
  have run: "setCurrentData (setTargetData power_on 100 300 0 0) 0 300 4.9035 1 90 0 1000
      = (dropDistanceToTarget s < targetRaduis s, s)"
    by (simp add: setCurrentData_def setTargetData_def power_on_def s_def Let_def)
  obtain tN where tN: "1 \<le> tN" and d: "calculateDirectDistanceToTarget s = Fin tN"
    and l: "calculateLateralError s = Fin tN"
    using abeam_one_degree [of s] by (auto simp: s_def power_on_def)
  have drop: "calculateDropDistance s = Fin 0.9"
    using calculateDropDistance_Fin [of s "4.9035" 0 1] by (simp add: s_def power_on_def)
  have radius: "targetRaduis s = Fin 0" "lateralError s = Fin 0"
    by (simp_all add: s_def power_on_def)
  have stale: "calculatePathDistanceToTarget s = Fin tN"
    using calculatePathDistanceToTarget_Fin [OF d radius(2)] tN by simp
  have d': "calculateDirectDistanceToTarget (s\<lparr>lateralError := Fin tN\<rparr>) = Fin tN"
    using d by (simp add: calculateDirectDistanceToTarget_def)
  have fresh: "calculatePathDistanceToTarget (s\<lparr>lateralError := Fin tN\<rparr>) = Fin 0"
    using calculatePathDistanceToTarget_Fin [OF d', of tN] by simp
  show ?thesis
    unfolding run using tN
    by (simp add: recalculate_def dropDistanceToTarget_def stale fresh drop radius l)
qed

text \<open>
  Claim C10: the decision does not depend on the clock, nor on the time stamp of the
  telemetry: for any two values of \<^verbatim>\<open>millis()\<close> and of the data age, \<open>recalculate\<close>
  returns the same boolean, and so does \<open>setCurrentData\<close> called with the same
  position, altitude, velocity and heading.
\<close>

theorem decision_independent_of_clock:
  "recalculate (s\<lparr>currentDataAge := a1\<rparr>) t1 = recalculate (s\<lparr>currentDataAge := a2\<rparr>) t2
   \<and> fst (setCurrentData s lat lon alt v h a1 t1) = fst (setCurrentData s lat lon alt v h a2 t2)"
  by (simp add: recalculate_def setCurrentData_def dropDistanceToTarget_def
      calculatePathDistanceToTarget_def calculateDirectDistanceToTarget_def
      calculateDropDistance_def Let_def)

text \<open>
  Claim C5: for every state with \<open>currentVelocity = 0\<close>, \<open>calculateTimeToDrop\<close>
  divides by zero and yields a value that is not finite (an infinity or NaN), not zero.
  No branch of \<open>calculateTimeToDrop\<close>, \<open>recalculate\<close> or the setters tests the
  velocity.
\<close>

theorem calculateTimeToDrop_zero_velocity:
  assumes "currentVelocity s = Fin 0"
  shows "\<not> isfinite (calculateTimeToDrop s millis) \<and> calculateTimeToDrop s millis \<noteq> Fin 0"
proof -
  have "\<not> isfinite (calculateTimeToDrop s millis)"
    by (simp add: calculateTimeToDrop_def Let_def assms divide_by_zero_not_finite)
  then show ?thesis
    by (cases "calculateTimeToDrop s millis") simp_all
qed

theorem calculateTimeToDrop_zero_velocity_witness:
  "currentVelocity (scenario\<lparr>currentVelocity := 0\<rparr>) = Fin 0
   \<and> \<not> isfinite (calculateTimeToDrop (scenario\<lparr>currentVelocity := 0\<rparr>) 1000)
   \<and> calculateTimeToDrop (scenario\<lparr>currentVelocity := 0\<rparr>) 1000 \<noteq> Fin 0"
  using calculateTimeToDrop_zero_velocity [of "scenario\<lparr>currentVelocity := 0\<rparr>" 1000]
  by simp

lemma lateral_error_one_degree:
  "Fin 1 \<le> calculateLateralError
     (power_on\<lparr>targetLatitude := 100, targetLongitude := 300, currentLongitude := 300,
        currentVelocity := 10, currentHeading := 90\<rparr>)"
proof -
  let ?s = "power_on\<lparr>targetLatitude := 100, targetLongitude := 300, currentLongitude := 300,
        currentVelocity := 10, currentHeading := 90\<rparr>"
  obtain tN where t: "convertDeg2UTM (Fin 1) (Fin 3) = (Fin 500000, Fin tN)" and tN: "1 \<le> tN"
    using convertDeg2UTM_one_degree by blast
  have c': "convertDeg2UTM (convertDecimalDegMinToDegree (currentLatitude ?s))
              (convertDecimalDegMinToDegree (currentLongitude ?s)) = (Fin 500000, Fin 0)"
    by (simp add: power_on_def convertDecimalDegMinToDegree_Fin convertDeg2UTM_central_equator)
  have t': "convertDeg2UTM (convertDecimalDegMinToDegree (targetLatitude ?s))
              (convertDecimalDegMinToDegree (targetLongitude ?s)) = (Fin 500000, Fin tN)"
    by (simp add: power_on_def convertDecimalDegMinToDegree_Fin t)
  have a': "convertHeadingToMathAngle (currentHeading ?s) = Fin 0"
    by (simp add: power_on_def convertHeadingToMathAngle_Fin)
  show ?thesis
    unfolding calculateLateralError_Fin [OF c' t' a'] using tN by simp
qed

lemma time_to_drop_at_target:
  "calculateTimeToDrop
     (power_on\<lparr>targetLongitude := 300, currentLongitude := 300, currentVelocity := 10,
        currentHeading := 90\<rparr>) 1000 = Fin (- 1)"
proof -
  let ?s = "power_on\<lparr>targetLongitude := 300, currentLongitude := 300, currentVelocity := 10,
        currentHeading := 90\<rparr>"
  have "calculateDirectDistanceToTarget ?s = Fin 0"
    by (simp add: calculateDirectDistanceToTarget_def power_on_def
      convertDecimalDegMinToDegree_Fin convertDeg2UTM_central_equator)
  then have "calculatePathDistanceToTarget ?s = Fin 0"
    by (simp add: calculatePathDistanceToTarget_def power_on_def)
  moreover have "calculateDropDistance ?s = Fin 0"
    by (simp add: calculateDropDistance_def power_on_def CORRECTION_FACTOR_def)
  ultimately show ?thesis
    by (simp add: calculateTimeToDrop_def dropDistanceToTarget_def double_of_ulong_def
        power_on_def)
qed

text \<open>
  Claim C1 says that each setter stores the recomputed lateral error and time-to-drop.
  No setter writes either field: after \<open>setCurrentData\<close> and after \<open>setTargetData\<close> the
  getters return what the fields held before the call. Two runs from the engine as it
  is before its first call show it. In the first the target is set one degree north of
  the equator at 3 degrees east, and telemetry then puts the aircraft on the equator at
  3 degrees east, heading east: \<open>getLateralError\<close> returns 0, while
  \<open>calculateLateralError\<close> is at least 1 m for the state just stored (the target is
  about 110 km off the track). In the second the target is on the equator and the
  aircraft at the target with 10 m/s, the telemetry stamped 0 and \<open>millis()\<close> at 1000:
  \<open>getTimeToDrop\<close> returns 0, while \<open>calculateTimeToDrop\<close> is -1 s.
\<close>

theorem setters_leave_diagnostics_stale:
  "getLateralError (snd (setCurrentData s lat lon alt v h age t)) = getLateralError s
   \<and> getTimeToDrop (snd (setCurrentData s lat lon alt v h age t)) = getTimeToDrop s
   \<and> getLateralError (setTargetData s tlat tlon talt t) = getLateralError s
   \<and> getTimeToDrop (setTargetData s tlat tlon talt t) = getTimeToDrop s
   \<and> getLateralError
        (snd (setCurrentData (setTargetData power_on 100 300 0 0) 0 300 0 10 90 0 1000)) = Fin 0
   \<and> Fin 1 \<le> calculateLateralError
        (snd (setCurrentData (setTargetData power_on 100 300 0 0) 0 300 0 10 90 0 1000))
   \<and> getTimeToDrop
        (snd (setCurrentData (setTargetData power_on 0 300 0 0) 0 300 0 10 90 0 1000)) = Fin 0
   \<and> calculateTimeToDrop
        (snd (setCurrentData (setTargetData power_on 0 300 0 0) 0 300 0 10 90 0 1000)) 1000
       = Fin (- 1)"
proof -
  have s1: "snd (setCurrentData (setTargetData power_on 100 300 0 0) 0 300 0 10 90 0 1000)
      = power_on\<lparr>targetLatitude := 100, targetLongitude := 300, currentLongitude := 300,
          currentVelocity := 10, currentHeading := 90\<rparr>"
    by (simp add: setCurrentData_def setTargetData_def power_on_def Let_def)
  have s2: "snd (setCurrentData (setTargetData power_on 0 300 0 0) 0 300 0 10 90 0 1000)
      = power_on\<lparr>targetLongitude := 300, currentLongitude := 300, currentVelocity := 10,
          currentHeading := 90\<rparr>"
    by (simp add: setCurrentData_def setTargetData_def power_on_def Let_def)
  show ?thesis
    unfolding s1 s2
    using lateral_error_one_degree time_to_drop_at_target
    by (simp add: setCurrentData_def setTargetData_def getLateralError_def getTimeToDrop_def
        Let_def power_on_def)
qed

end
